theory Spec2Isabelle
  imports Main
begin

section \<open>Values shared by the two packages\<close>

text \<open>
  Go errors are values; \<open>nil\<close> is \<open>None\<close>. A call either returns its error result,
  never returns (a send on an unbuffered channel that nobody receives from), or panics
  (a nil pointer dereference).
\<close>

type_synonym error = string

datatype call = Returned "error option" | Blocked | Panicked

text \<open>
  A \<open>context.Context\<close>: the background context, a context supplied by the caller, or
  the context \<open>tracer.Start\<close> derives from a parent, which carries the new span (the
  provider's identity, the tracer's name and the span's name).
\<close>

datatype "context" = Background | Named string | WithSpan nat string string "context"

section \<open>Package server: options, construction, address\<close>

text \<open>
  \<open>type Options struct\<close> of package server. The three integers are Go \<open>int\<close>; the code
  only compares and prints them, so they are modelled as unbounded integers.
\<close>

record server_Options =
  Hostname :: string
  Port :: int
  CertificateFile :: string
  KeyFile :: string
  ShutdownTimeout :: int

text \<open>\<open>var options Options\<close>: the zero value.\<close>

definition server_zero :: server_Options where
  "server_zero =
     \<lparr>Hostname = [], Port = 0, CertificateFile = [], KeyFile = [], ShutdownTimeout = 0\<rparr>"

type_synonym server_Option = "server_Options \<Rightarrow> server_Options"

definition server_Hostname :: "string \<Rightarrow> server_Option" where
  "server_Hostname h = (\<lambda>options. options\<lparr>Hostname := h\<rparr>)"

definition server_Port :: "int \<Rightarrow> server_Option" where
  "server_Port p = (\<lambda>options. options\<lparr>Port := p\<rparr>)"

definition server_TLS :: "string \<Rightarrow> string \<Rightarrow> server_Option" where
  "server_TLS certFile keyFile = (\<lambda>options. options\<lparr>CertificateFile := certFile, KeyFile := keyFile\<rparr>)"

definition server_ShutdownTimeout :: "int \<Rightarrow> server_Option" where
  "server_ShutdownTimeout t = (\<lambda>options. options\<lparr>ShutdownTimeout := t\<rparr>)"

text \<open>\<open>for _, o := range opts { o(&options) }\<close>\<close>

fun apply_opts :: "('o \<Rightarrow> 'o) list \<Rightarrow> 'o \<Rightarrow> 'o" where
  "apply_opts [] v = v"
| "apply_opts (f # fs) v = apply_opts fs (f v)"

text \<open>\<open>fmt.Sprintf("%d", n)\<close>: the decimal digits, with a sign for a negative number.\<close>

fun dec_nat :: "nat \<Rightarrow> string" where
  "dec_nat n =
     (if n < 10 then [''0123456789'' ! n]
      else dec_nat (n div 10) @ [''0123456789'' ! (n mod 10)])"

declare dec_nat.simps [simp del]

definition sprint_d :: "int \<Rightarrow> string" where
  "sprint_d i = (if i < 0 then CHR ''-'' # dec_nat (nat (- i)) else dec_nat (nat i))"

text \<open>
  The serve loop a \<open>Start\<close> launches on its own goroutine: \<open>ServeTLS(l, cert, key)\<close> or
  \<open>Serve(l)\<close>, on the listener bound to the given address.
\<close>

datatype serve = ServeTLS string string string | Serve string

fun is_TLS :: "serve \<Rightarrow> bool" where
  "is_TLS (ServeTLS l c k) = True"
| "is_TLS (Serve l) = False"

text \<open>
  \<open>type HttpServer struct\<close>. The handler type is a parameter. \<open>srv\<close> is nil until
  \<open>Start\<close>. The unbuffered channel \<open>exit\<close> is represented by the number of goroutines
  parked at \<open>ch := <-hs.exit\<close>: a send on it completes exactly when there is one.
  \<open>serve_loops\<close> lists the serve goroutines launched so far.
\<close>

record 'h HttpServer =
  srv :: "'h option"
  handler :: 'h
  address :: string
  options :: server_Options
  exit_receivers :: nat
  serve_loops :: "serve list"

text \<open>
  The calls into the platform whose results the code branches on or passes along:
  \<open>net.Listen("tcp", address)\<close>, giving an error or the listener's resolved address;
  \<open>srv.Shutdown(ctx)\<close> under a deadline of the given number of seconds; and the
  tracer-provider's \<open>Shutdown(ctx)\<close>, for the provider of the given identity.
\<close>

record env =
  net_Listen :: "string \<Rightarrow> error + string"
  srv_Shutdown :: "int \<Rightarrow> error option"
  tp_Shutdown :: "nat \<Rightarrow> context option \<Rightarrow> error option"

definition NewHttpServer :: "'h \<Rightarrow> server_Option list \<Rightarrow> 'h HttpServer" where
  "NewHttpServer h os =
     (let options0 = apply_opts os server_zero;
          options1 = (if Hostname options0 = [] then options0\<lparr>Hostname := ''localhost''\<rparr>
                      else options0);
          options2 = (if Port options1 < 0 then options1\<lparr>Port := 0\<rparr> else options1);
          options3 = (if ShutdownTimeout options2 \<le> 0 then options2\<lparr>ShutdownTimeout := 5\<rparr>
                      else options2)
      in \<lparr>srv = None,
          handler = h,
          address = Hostname options3 @ '':'' @ sprint_d (Port options3),
          options = options3,
          exit_receivers = 0,
          serve_loops = []\<rparr>)"

definition Address :: "'h HttpServer \<Rightarrow> string" where
  "Address hs = address hs"

text \<open>
  \<open>HttpServer.Start\<close>: a failed \<open>net.Listen\<close> returns its error and changes nothing.
  Otherwise the resolved address is recorded, \<open>srv\<close> is created, the serve goroutine is
  launched (TLS when both file names are non-empty, plaintext otherwise), the drain
  goroutine parks on \<open>hs.exit\<close>, and \<open>Start\<close> returns nil.
\<close>

definition HttpServer_Start :: "env \<Rightarrow> 'h HttpServer \<Rightarrow> error option \<times> 'h HttpServer" where
  "HttpServer_Start e hs =
     (case net_Listen e (address hs) of
        Inl err \<Rightarrow> (Some err, hs)
      | Inr l \<Rightarrow>
          (None,
           hs\<lparr>address := l,
              srv := Some (handler hs),
              serve_loops := serve_loops hs @
                [if CertificateFile (options hs) \<noteq> [] \<and> KeyFile (options hs) \<noteq> []
                 then ServeTLS l (CertificateFile (options hs)) (KeyFile (options hs))
                 else Serve l],
              exit_receivers := Suc (exit_receivers hs)\<rparr>))"

text \<open>
  The drain goroutine, once it has received the reply channel \<open>ch\<close>: it calls
  \<open>srv.Shutdown\<close> with the configured deadline, logs a failure, and sends \<open>nil\<close> on
  \<open>ch\<close>. The pair is (what \<open>Shutdown\<close> reported, what is sent on \<open>ch\<close>).
\<close>

definition drain :: "env \<Rightarrow> 'h HttpServer \<Rightarrow> error option \<times> error option" where
  "drain e hs = (srv_Shutdown e (ShutdownTimeout (options hs)), None)"

text \<open>
  \<open>HttpServer.Stop\<close>, on a receiver that may be nil. Reading \<open>hs.exit\<close> through a nil
  receiver panics. The send \<open>hs.exit <- ch\<close> needs a parked drain goroutine: without
  one it never completes. With one, that goroutine drains and \<open>Stop\<close> returns what it
  receives on \<open>ch\<close>.
\<close>

definition HttpServer_Stop :: "env \<Rightarrow> 'h HttpServer option \<Rightarrow> call \<times> 'h HttpServer option" where
  "HttpServer_Stop e p =
     (case p of
        None \<Rightarrow> (Panicked, None)
      | Some hs \<Rightarrow>
          if exit_receivers hs = 0 then (Blocked, Some hs)
          else (Returned (snd (drain e hs)),
                Some (hs\<lparr>exit_receivers := exit_receivers hs - 1\<rparr>)))"

section \<open>Package service: handlers, decorators, tracing middleware\<close>

text \<open>
  The fields of \<open>*http.Request\<close> the code reads: the method, \<open>r.URL.String()\<close>,
  the request target, the host, \<open>r.URL.Scheme\<close> and the request's context.
\<close>

record request =
  Method :: string
  URL :: string
  RequestURI :: string
  Host :: string
  URL_Scheme :: string
  req_Context :: "context"

text \<open>
  An \<open>http.ResponseWriter\<close>: the status code, unset until the header is written, and
  the body written so far. \<open>WriteHeader\<close> counts once: a later call changes nothing.
  \<open>Write\<close> writes the header with status 200 first when none was written.
\<close>

record ResponseWriter =
  status :: "int option"
  body :: string

definition new_ResponseWriter :: ResponseWriter where
  "new_ResponseWriter = \<lparr>status = None, body = []\<rparr>"

definition WriteHeader :: "int \<Rightarrow> ResponseWriter \<Rightarrow> ResponseWriter" where
  "WriteHeader code w = (if status w = None then w\<lparr>status := Some code\<rparr> else w)"

definition Write :: "string \<Rightarrow> ResponseWriter \<Rightarrow> ResponseWriter" where
  "Write b w = (WriteHeader 200 w)\<lparr>body := body w @ b\<rparr>"

text \<open>
  What a handler tells the tracing backend: a span started (provider, tracer name, span
  name), attributes set on the current span, a span ended. Handlers only emit these.
\<close>

datatype event =
  SpanStart nat string string
| SetAttributes "(string \<times> string) list"
| SpanEnd string

text \<open>
  An \<open>http.HandlerFunc\<close>, and a decorator function, which has the same signature:
  given the writer and the request, the writer afterwards and the events emitted.
\<close>

type_synonym HandlerFunc = "ResponseWriter \<Rightarrow> request \<Rightarrow> ResponseWriter \<times> event list"

text \<open>Sequencing: run the next step on the writer the previous one left.\<close>

definition and_then ::
  "ResponseWriter \<times> event list \<Rightarrow> (ResponseWriter \<Rightarrow> ResponseWriter \<times> event list)
     \<Rightarrow> ResponseWriter \<times> event list" where
  "and_then p f = (case p of (w, es) \<Rightarrow> (case f w of (w', es') \<Rightarrow> (w', es @ es')))"

datatype EndpointDecoratorType = Before | After

record EndpointDecorator =
  Type :: EndpointDecoratorType
  DecoratorFunc :: HandlerFunc

definition BeforeDecorator :: "HandlerFunc \<Rightarrow> EndpointDecorator" where
  "BeforeDecorator df = \<lparr>Type = Before, DecoratorFunc = df\<rparr>"

definition AfterDecorator :: "HandlerFunc \<Rightarrow> EndpointDecorator" where
  "AfterDecorator df = \<lparr>Type = After, DecoratorFunc = df\<rparr>"

record Endpoint =
  ep_Name :: string
  ep_Method :: string
  ep_URI :: string
  ep_HandlerFunc :: HandlerFunc
  Decorators :: "EndpointDecorator list"

definition decorateHandler :: "HandlerFunc \<Rightarrow> EndpointDecorator \<Rightarrow> HandlerFunc" where
  "decorateHandler h ed =
     (\<lambda>w r.
        and_then
          (and_then (if Type ed = Before then DecoratorFunc ed w r else (w, []))
                    (\<lambda>w1. h w1 r))
          (\<lambda>w2. if Type ed = After then DecoratorFunc ed w2 r else (w2, [])))"

text \<open>
  A tracer-provider. Each construction yields a new object; \<open>tp_id\<close> is its identity.
  \<open>initTracer\<close> builds the resource from the service name only.
\<close>

type_synonym Sampler = string
type_synonym Exporter = string

record TracerProvider =
  tp_id :: nat
  tp_resource :: "(string \<times> string) list"
  tp_sampler :: Sampler
  tp_exporter :: Exporter

text \<open>
  The state of the tracing library: the providers constructed so far, the process-wide
  provider set by \<open>otel.SetTracerProvider\<close>, and the providers shut down, each with the
  context its \<open>Shutdown\<close> was given.
\<close>

record otel =
  constructed :: "TracerProvider list"
  global_provider :: "TracerProvider option"
  shut_down :: "(nat \<times> context option) list"

definition otel_zero :: otel where
  "otel_zero = \<lparr>constructed = [], global_provider = None, shut_down = []\<rparr>"

definition initTracer ::
  "string \<Rightarrow> string \<Rightarrow> Sampler \<Rightarrow> Exporter \<Rightarrow> otel
     \<Rightarrow> (TracerProvider \<times> error option) \<times> otel" where
  "initTracer nm ver sampler exporter ot =
     (let tp = \<lparr>tp_id = length (constructed ot),
                 tp_resource = [(''service.name'', nm)],
                 tp_sampler = sampler,
                 tp_exporter = exporter\<rparr>
      in ((tp, None), ot\<lparr>constructed := constructed ot @ [tp], global_provider := Some tp\<rparr>))"

text \<open>
  The tracing middleware: a span is started from the request's context, the five
  attributes are set, the inner handler runs on the request rebound to the context that
  carries the span, and the span is ended when the handler returns.
\<close>

definition trace :: "HandlerFunc \<Rightarrow> TracerProvider \<Rightarrow> string \<Rightarrow> string \<Rightarrow> HandlerFunc" where
  "trace h tp tracerName spanName =
     (\<lambda>w r.
        let ctx = WithSpan (tp_id tp) tracerName spanName (req_Context r);
            attrs = [(''http.method'', Method r),
                     (''http.url'', URL r),
                     (''http.target'', RequestURI r),
                     (''http.host'', Host r),
                     (''http.scheme'', URL_Scheme r)];
            sr = r\<lparr>req_Context := ctx\<rparr>
        in case h w sr of
             (w', es) \<Rightarrow>
               (w', [SpanStart (tp_id tp) tracerName spanName, SetAttributes attrs] @ es @
                    [SpanEnd spanName]))"

section \<open>Package service: options, endpoints, lifecycle\<close>

text \<open>
  A lifecycle hook is a \<open>func() error\<close>: a closure over variables of the caller. The
  type \<open>'u\<close> is the state of those variables.
\<close>

type_synonym 'u hook = "'u \<Rightarrow> error option \<times> 'u"

record 'u service_Options =
  BeforeStart :: "'u hook list"
  BeforeStop :: "'u hook list"
  AfterStart :: "'u hook list"
  AfterStop :: "'u hook list"
  svc_Port :: int
  svc_CertificateFile :: string
  svc_KeyFile :: string
  Context :: "context option"
  Signal :: bool
  Sampler :: "Sampler option"
  Exporter :: "Exporter option"

definition service_zero :: "'u service_Options" where
  "service_zero =
     \<lparr>BeforeStart = [], BeforeStop = [], AfterStart = [], AfterStop = [],
      svc_Port = 0, svc_CertificateFile = [], svc_KeyFile = [],
      Context = None, Signal = False, Sampler = None, Exporter = None\<rparr>"

type_synonym 'u service_Option = "'u service_Options \<Rightarrow> 'u service_Options"

definition service_BeforeStart :: "'u hook \<Rightarrow> 'u service_Option" where
  "service_BeforeStart fn = (\<lambda>v. v\<lparr>BeforeStart := BeforeStart v @ [fn]\<rparr>)"

definition service_BeforeStop :: "'u hook \<Rightarrow> 'u service_Option" where
  "service_BeforeStop fn = (\<lambda>v. v\<lparr>BeforeStop := BeforeStop v @ [fn]\<rparr>)"

definition service_AfterStart :: "'u hook \<Rightarrow> 'u service_Option" where
  "service_AfterStart fn = (\<lambda>v. v\<lparr>AfterStart := AfterStart v @ [fn]\<rparr>)"

definition service_AfterStop :: "'u hook \<Rightarrow> 'u service_Option" where
  "service_AfterStop fn = (\<lambda>v. v\<lparr>AfterStop := AfterStop v @ [fn]\<rparr>)"

definition service_Port :: "int \<Rightarrow> 'u service_Option" where
  "service_Port p = (\<lambda>v. v\<lparr>svc_Port := p\<rparr>)"

definition service_TLS :: "string \<Rightarrow> string \<Rightarrow> 'u service_Option" where
  "service_TLS certFile keyFile =
     (\<lambda>v. v\<lparr>svc_CertificateFile := certFile, svc_KeyFile := keyFile\<rparr>)"

definition service_Context :: "context \<Rightarrow> 'u service_Option" where
  "service_Context ctx = (\<lambda>v. v\<lparr>Context := Some ctx\<rparr>)"

definition service_Tracing :: "Sampler \<Rightarrow> Exporter \<Rightarrow> 'u service_Option" where
  "service_Tracing s e = (\<lambda>v. v\<lparr>Sampler := Some s, Exporter := Some e\<rparr>)"

text \<open>
  Modelled from the spec: \<open>server.NewChiHandler\<close> and the router it returns are not
  among the sources. The routing capability registers a handler for a method and a URI
  pattern; the router is the list of registrations, in order.
\<close>

type_synonym router = "(string \<times> string \<times> HandlerFunc) list"

definition NewChiHandler :: router where
  "NewChiHandler = []"

definition router_Method :: "string \<Rightarrow> string \<Rightarrow> HandlerFunc \<Rightarrow> router \<Rightarrow> router" where
  "router_Method m uri h rt = rt @ [(m, uri, h)]"

text \<open>
  \<open>type Service struct\<close>. \<open>server\<close> and \<open>traceProvider\<close> are nil until set.
  \<open>watchers\<close> lists the goroutines \<open>Start\<close> has launched that wait for a signal or for
  the context to be done and then call \<open>Stop\<close>; the flag says whether signals were
  registered for it.
\<close>

record 'u Service =
  name :: string
  version :: string
  opts :: "'u service_Options"
  server :: "router HttpServer option"
  svc_handler :: router
  traceProvider :: "TracerProvider option"
  watchers :: "bool list"

definition NewService :: "string \<Rightarrow> string \<Rightarrow> 'u Service" where
  "NewService nm ver =
     \<lparr>name = nm, version = ver, opts = service_zero, server = None,
      svc_handler = NewChiHandler, traceProvider = None, watchers = []\<rparr>"

definition Init :: "'u Service \<Rightarrow> 'u service_Option list \<Rightarrow> error option \<times> 'u Service" where
  "Init s os =
     (let options0 = apply_opts os service_zero;
          options1 = (if Context options0 = None then options0\<lparr>Context := Some Background\<rparr>
                      else options0)
      in (None, s\<lparr>opts := options1\<rparr>))"

text \<open>
  \<open>Service.Endpoints\<close>: for each endpoint the decorators are wrapped around the base
  handler one after the other; when a sampler and an exporter are configured,
  \<open>initTracer\<close> is called, its provider is stored and the handler is wrapped by
  \<open>trace\<close>; the handler is registered under the endpoint's method and URI.
\<close>

fun Endpoints :: "'u Service \<Rightarrow> Endpoint list \<Rightarrow> otel \<Rightarrow> error option \<times> 'u Service \<times> otel" where
  "Endpoints s [] ot = (None, s, ot)"
| "Endpoints s (ep # eps) ot =
     (let h = foldl decorateHandler (ep_HandlerFunc ep) (Decorators ep)
      in case (Sampler (opts s), Exporter (opts s)) of
           (Some sampler, Some exporter) \<Rightarrow>
             (case initTracer (name s) (version s) sampler exporter ot of
                ((tp, Some err), ot') \<Rightarrow> (Some err, s, ot')
              | ((tp, None), ot') \<Rightarrow>
                  Endpoints
                    (s\<lparr>traceProvider := Some tp,
                       svc_handler :=
                         router_Method (ep_Method ep) (ep_URI ep)
                           (trace h tp (name s) (ep_Name ep)) (svc_handler s)\<rparr>)
                    eps ot')
         | _ \<Rightarrow>
             Endpoints
               (s\<lparr>svc_handler := router_Method (ep_Method ep) (ep_URI ep) h (svc_handler s)\<rparr>)
               eps ot)"

text \<open>
  \<open>for _, fn := range hooks { if err := fn(); err != nil { return err } }\<close>: the
  result is the first error, or nil when every hook returned nil.
\<close>

fun run_hooks :: "'u hook list \<Rightarrow> 'u \<Rightarrow> error option \<times> 'u" where
  "run_hooks [] u = (None, u)"
| "run_hooks (fn # fns) u =
     (case fn u of
        (Some err, u') \<Rightarrow> (Some err, u')
      | (None, u') \<Rightarrow> run_hooks fns u')"

text \<open>
  \<open>Service.Start\<close>. After the BeforeStart hooks a new server is constructed from the
  router, the port and the TLS file names, stored in \<open>s.server\<close> and started; after
  the AfterStart hooks the watcher goroutine is launched.
\<close>

definition Service_Start :: "env \<Rightarrow> 'u Service \<Rightarrow> 'u \<Rightarrow> error option \<times> 'u Service \<times> 'u" where
  "Service_Start e s u =
     (case run_hooks (BeforeStart (opts s)) u of
        (Some err, u1) \<Rightarrow> (Some err, s, u1)
      | (None, u1) \<Rightarrow>
          (case HttpServer_Start e
                  (NewHttpServer (svc_handler s)
                     [server_Port (svc_Port (opts s)),
                      server_TLS (svc_CertificateFile (opts s)) (svc_KeyFile (opts s))]) of
             (Some err, hs) \<Rightarrow> (Some err, s\<lparr>server := Some hs\<rparr>, u1)
           | (None, hs) \<Rightarrow>
               (case run_hooks (AfterStart (opts s)) u1 of
                  (Some err, u2) \<Rightarrow> (Some err, s\<lparr>server := Some hs\<rparr>, u2)
                | (None, u2) \<Rightarrow>
                    (None,
                     s\<lparr>server := Some hs, watchers := watchers s @ [Signal (opts s)]\<rparr>,
                     u2))))"

text \<open>
  \<open>Service.Stop\<close>, with the call \<open>s.Server().Stop()\<close> as the parameter \<open>stop\<close>: the
  BeforeStop hooks, the server's stop, the AfterStop hooks, and the shutdown of the
  tracer-provider when there is one, under the configured context.
\<close>

definition Service_Stop_with ::
  "(router HttpServer option \<Rightarrow> call \<times> router HttpServer option) \<Rightarrow> env \<Rightarrow> 'u Service
     \<Rightarrow> 'u \<Rightarrow> otel \<Rightarrow> call \<times> 'u Service \<times> 'u \<times> otel" where
  "Service_Stop_with stop e s u ot =
     (case run_hooks (BeforeStop (opts s)) u of
        (Some err, u1) \<Rightarrow> (Returned (Some err), s, u1, ot)
      | (None, u1) \<Rightarrow>
          (case stop (server s) of
             (Returned None, p) \<Rightarrow>
               (case run_hooks (AfterStop (opts s)) u1 of
                  (Some err, u2) \<Rightarrow> (Returned (Some err), s\<lparr>server := p\<rparr>, u2, ot)
                | (None, u2) \<Rightarrow>
                    (case traceProvider s of
                       Some tp \<Rightarrow>
                         (Returned (tp_Shutdown e (tp_id tp) (Context (opts s))),
                          s\<lparr>server := p\<rparr>, u2,
                          ot\<lparr>shut_down := shut_down ot @ [(tp_id tp, Context (opts s))]\<rparr>)
                     | None \<Rightarrow> (Returned None, s\<lparr>server := p\<rparr>, u2, ot)))
           | (c, p) \<Rightarrow> (c, s\<lparr>server := p\<rparr>, u1, ot)))"

text \<open>\<open>Service.Stop\<close> as the repository has it: the server is an \<open>HttpServer\<close>.\<close>

definition Service_Stop ::
  "env \<Rightarrow> 'u Service \<Rightarrow> 'u \<Rightarrow> otel \<Rightarrow> call \<times> 'u Service \<times> 'u \<times> otel" where
  "Service_Stop e s u ot = Service_Stop_with (HttpServer_Stop e) e s u ot"

section \<open>Notions used to state the properties\<close>

text \<open>
  Functions of a handler's signature run one after the other on the same request, each
  on the writer the previous one left.
\<close>

fun seq_funcs :: "HandlerFunc list \<Rightarrow> HandlerFunc" where
  "seq_funcs [] = (\<lambda>w r. (w, []))"
| "seq_funcs (f # fs) = (\<lambda>w r. and_then (f w r) (\<lambda>w'. seq_funcs fs w' r))"

text \<open>The functions of the decorators of one phase, in the order of the sequence.\<close>

definition phase_funcs :: "EndpointDecoratorType \<Rightarrow> EndpointDecorator list \<Rightarrow> HandlerFunc list" where
  "phase_funcs t ds = map DecoratorFunc (filter (\<lambda>d. Type d = t) ds)"

text \<open>
  The state that running all the given hooks in order, whatever they return, leaves;
  that every hook of a list returns nil when they are run in order; and that the hook
  at index \<open>i\<close> is the first to fail, with error \<open>err\<close>.
\<close>

fun effects :: "'u hook list \<Rightarrow> 'u \<Rightarrow> 'u" where
  "effects [] u = u"
| "effects (fn # fns) u = effects fns (snd (fn u))"

fun all_ok :: "'u hook list \<Rightarrow> 'u \<Rightarrow> bool" where
  "all_ok [] u = True"
| "all_ok (fn # fns) u = (fst (fn u) = None \<and> all_ok fns (snd (fn u)))"

definition first_failure :: "'u hook list \<Rightarrow> 'u \<Rightarrow> nat \<Rightarrow> error \<Rightarrow> bool" where
  "first_failure fns u i err =
     (i < length fns \<and> all_ok (take i fns) u
      \<and> fst ((fns ! i) (effects (take i fns) u)) = Some err)"

section \<open>Example inputs\<close>

text \<open>
  A platform on which every listen succeeds and resolves to a fixed address, and every
  shutdown succeeds; one on which the port is taken; and one on which the graceful
  shutdown of the server runs past its deadline.
\<close>

definition env_ok :: env where
  "env_ok =
     \<lparr>net_Listen = (\<lambda>a. Inr ''127.0.0.1:40123''),
      srv_Shutdown = (\<lambda>t. None),
      tp_Shutdown = (\<lambda>i c. None)\<rparr>"

definition env_busy :: env where
  "env_busy =
     \<lparr>net_Listen = (\<lambda>a. Inl ''bind: address already in use''),
      srv_Shutdown = (\<lambda>t. None),
      tp_Shutdown = (\<lambda>i c. None)\<rparr>"

definition env_slow :: env where
  "env_slow =
     \<lparr>net_Listen = (\<lambda>a. Inr ''127.0.0.1:40123''),
      srv_Shutdown = (\<lambda>t. Some ''context deadline exceeded''),
      tp_Shutdown = (\<lambda>i c. None)\<rparr>"

text \<open>A GET request for the root, and a function that writes a fixed string.\<close>

definition get_root :: request where
  "get_root =
     \<lparr>Method = ''GET'', URL = ''/'', RequestURI = ''/'', Host = ''127.0.0.1:40123'',
      URL_Scheme = [], req_Context = Background\<rparr>"

definition writes :: "string \<Rightarrow> HandlerFunc" where
  "writes b = (\<lambda>w r. (Write b w, []))"

text \<open>
  An endpoint with two Before decorators followed by two After decorators, each of
  which, like the base handler, writes its own name.
\<close>

definition ep_order :: Endpoint where
  "ep_order =
     \<lparr>ep_Name = ''order'', ep_Method = ''GET'', ep_URI = ''/'',
      ep_HandlerFunc = writes ''H'',
      Decorators = [BeforeDecorator (writes ''B1''), BeforeDecorator (writes ''B2''),
                    AfterDecorator (writes ''A1''), AfterDecorator (writes ''A2'')]\<rparr>"

text \<open>A service with no option set, whose hooks, if it had any, would act on a counter.\<close>

definition svc_plain :: "nat Service" where
  "svc_plain = snd (Init (NewService ''test'' ''v0.1.0'') [])"

text \<open>What each registered handler writes as the body for a request, route by route.\<close>

definition bodies :: "router \<Rightarrow> request \<Rightarrow> (string \<times> string \<times> string) list" where
  "bodies rt r = map (\<lambda>(m, uri, h). (m, uri, body (fst (h new_ResponseWriter r)))) rt"

text \<open>
  The handler of the server tests, which writes a status and a message; and a handler
  that reports whether the context of the request it is given carries a span.
\<close>

definition stubHandler :: "string \<Rightarrow> int \<Rightarrow> HandlerFunc" where
  "stubHandler message st = (\<lambda>w r. (Write message (WriteHeader st w), []))"

definition span_echo :: HandlerFunc where
  "span_echo =
     (\<lambda>w r. (Write (if req_Context r = Background then ''no span'' else ''in span'') w, []))"

definition tp_example :: TracerProvider where
  "tp_example =
     \<lparr>tp_id = 0, tp_resource = [(''service.name'', ''test'')],
      tp_sampler = ''AlwaysSample'', tp_exporter = ''stdout''\<rparr>"

text \<open>A service with tracing configured, and two endpoints without decorators.\<close>

definition svc_traced :: "nat Service" where
  "svc_traced =
     snd (Init (NewService ''test'' ''v0.1.0'') [service_Tracing ''AlwaysSample'' ''stdout''])"

definition ep_a :: Endpoint where
  "ep_a =
     \<lparr>ep_Name = ''a'', ep_Method = ''GET'', ep_URI = ''/a'',
      ep_HandlerFunc = writes ''a'', Decorators = []\<rparr>"

definition ep_b :: Endpoint where
  "ep_b =
     \<lparr>ep_Name = ''b'', ep_Method = ''GET'', ep_URI = ''/b'',
      ep_HandlerFunc = writes ''b'', Decorators = []\<rparr>"

text \<open>The providers under which a list of events starts spans, and those under which
  each registered handler starts spans for a request.\<close>

fun span_providers :: "event list \<Rightarrow> nat list" where
  "span_providers [] = []"
| "span_providers (SpanStart i tn sn # es) = i # span_providers es"
| "span_providers (SetAttributes kvs # es) = span_providers es"
| "span_providers (SpanEnd sn # es) = span_providers es"

definition providers_used :: "router \<Rightarrow> request \<Rightarrow> nat list list" where
  "providers_used rt r = map (\<lambda>(m, uri, h). span_providers (snd (h new_ResponseWriter r))) rt"

text \<open>
  Hooks over a counter, as in the service test: one that counts and succeeds, one that
  counts and fails. A service initialised with given hooks for the four phases.
\<close>

definition count_ok :: "nat hook" where
  "count_ok = (\<lambda>n. (None, Suc n))"

definition count_fail :: "error \<Rightarrow> nat hook" where
  "count_fail msg = (\<lambda>n. (Some msg, Suc n))"

definition svc_hooks ::
  "nat hook list \<Rightarrow> nat hook list \<Rightarrow> nat hook list \<Rightarrow> nat hook list \<Rightarrow> nat Service" where
  "svc_hooks bstart astart bstop astop =
     snd (Init (NewService ''test'' ''v0.1.0'')
            (map service_BeforeStart bstart @ map service_AfterStart astart @
             map service_BeforeStop bstop @ map service_AfterStop astop))"

text \<open>A server's stop that reports a failed drain.\<close>

definition stop_fails :: "router HttpServer option \<Rightarrow> call \<times> router HttpServer option" where
  "stop_fails p = (Returned (Some ''drain failed''), p)"

text \<open>A server that was started on the platform \<open>env_ok\<close>.\<close>

definition running :: "router HttpServer" where
  "running = snd (HttpServer_Start env_ok (NewHttpServer NewChiHandler []))"

text \<open>
  A service with the given BeforeStop and AfterStop hooks whose server is the started
  one, with or without a tracer-provider.
\<close>

definition svc_started ::
  "nat hook list \<Rightarrow> nat hook list \<Rightarrow> TracerProvider option \<Rightarrow> nat Service" where
  "svc_started bstop astop tp =
     (svc_hooks [] [] bstop astop)\<lparr>server := Some running, traceProvider := tp\<rparr>"

text \<open>
  The service of the service test: one counting hook per phase, tracing configured, and
  one endpoint whose Before decorator writes "Hello ", whose base handler writes
  "World" and whose After decorator writes "!" and then the status 200.
\<close>

definition ep_hello :: Endpoint where
  "ep_hello =
     \<lparr>ep_Name = ''getRoot'', ep_Method = ''GET'', ep_URI = ''/'',
      ep_HandlerFunc = writes ''World'',
      Decorators = [BeforeDecorator (writes ''Hello ''),
                    AfterDecorator (\<lambda>w r. (WriteHeader 200 (Write ''!'' w), []))]\<rparr>"

definition svc_test :: "nat Service" where
  "svc_test =
     snd (Init (NewService ''test'' ''v0.1.0'')
            [service_BeforeStart count_ok, service_AfterStart count_ok,
             service_BeforeStop count_ok, service_AfterStop count_ok,
             service_Tracing ''AlwaysSample'' ''stdout''])"

definition responses :: "router \<Rightarrow> request \<Rightarrow> ResponseWriter list" where
  "responses rt r = map (\<lambda>(m, uri, h). fst (h new_ResponseWriter r)) rt"

text \<open>
  The service with one counting hook before and one after the stop, and the same
  service once its server's only drain goroutine has gone.
\<close>

definition svc_counting :: "nat Service" where
  "svc_counting = svc_started [count_ok] [count_ok] None"

definition svc_stopped :: "nat Service" where
  "svc_stopped = svc_counting\<lparr>server := Some (running\<lparr>exit_receivers := 0\<rparr>)\<rparr>"

section \<open>The server: defaults, address, transport\<close>

lemma sprint_d_zero: "sprint_d 0 = ''0''"
  by (simp add: sprint_d_def dec_nat.simps)

lemma dec_nat_not_empty: "dec_nat n \<noteq> []"
  by (subst dec_nat.simps) simp

lemmas server_option_defs =
  server_Hostname_def server_Port_def server_TLS_def server_ShutdownTimeout_def server_zero_def

lemma apply_opts_foldl: "apply_opts fs v = foldl (\<lambda>a f. f a) v fs"
  by (induction fs arbitrary: v) simp_all

lemma apply_opts_snoc: "apply_opts (fs @ [f]) v = f (apply_opts fs v)"
  by (induction fs arbitrary: v) simp_all

text \<open>
  C8. \<open>NewHttpServer\<close> applies the options, in the order given, to the zero value:
  each of the four setters stores its arguments in its own fields and leaves the
  others, so a value supplied last is the value the loop ends with. Then the defaults
  apply: an empty hostname becomes "localhost", a negative port becomes 0, a shutdown
  timeout of zero or less becomes 5; every other value, and the two TLS file names, are
  kept as supplied. With no option at all the result is localhost, port 0, no TLS files
  and 5 seconds; with a host name, a port, TLS files and a timeout supplied, the result
  holds exactly these. Neither \<open>Start\<close> nor \<open>Stop\<close> changes the options of a server
  afterwards.
\<close>

theorem NewHttpServer_defaults:
  "options (NewHttpServer h os) =
     (let v = foldl (\<lambda>a f. f a) server_zero os
      in \<lparr>Hostname = (if Hostname v = [] then ''localhost'' else Hostname v),
          Port = (if Port v < 0 then 0 else Port v),
          CertificateFile = CertificateFile v,
          KeyFile = KeyFile v,
          ShutdownTimeout = (if ShutdownTimeout v \<le> 0 then 5 else ShutdownTimeout v)\<rparr>)
   \<and> server_Hostname x v = v\<lparr>Hostname := x\<rparr>
   \<and> server_Port p v = v\<lparr>Port := p\<rparr>
   \<and> server_TLS c k v = v\<lparr>CertificateFile := c, KeyFile := k\<rparr>
   \<and> server_ShutdownTimeout t v = v\<lparr>ShutdownTimeout := t\<rparr>
   \<and> Hostname (options (NewHttpServer h (os @ [server_Hostname x])))
       = (if x = [] then ''localhost'' else x)
   \<and> Port (options (NewHttpServer h (os @ [server_Port p]))) = (if p < 0 then 0 else p)
   \<and> ShutdownTimeout (options (NewHttpServer h (os @ [server_ShutdownTimeout t])))
       = (if t \<le> 0 then 5 else t)
   \<and> CertificateFile (options (NewHttpServer h (os @ [server_TLS c k]))) = c
   \<and> KeyFile (options (NewHttpServer h (os @ [server_TLS c k]))) = k
   \<and> options (NewHttpServer h []) =
       \<lparr>Hostname = ''localhost'', Port = 0, CertificateFile = [], KeyFile = [],
        ShutdownTimeout = 5\<rparr>
   \<and> options (NewHttpServer h
        [server_Hostname ''example.org'', server_Port 8080,
         server_TLS ''cert.pem'' ''key.pem'', server_ShutdownTimeout 30]) =
       \<lparr>Hostname = ''example.org'', Port = 8080, CertificateFile = ''cert.pem'',
        KeyFile = ''key.pem'', ShutdownTimeout = 30\<rparr>
   \<and> options (snd (HttpServer_Start e hs)) = options hs
   \<and> map_option options (snd (HttpServer_Stop e (Some hs))) = Some (options hs)"
proof -
  have loop: "options (NewHttpServer h os) =
     (let v = foldl (\<lambda>a f. f a) server_zero os
      in \<lparr>Hostname = (if Hostname v = [] then ''localhost'' else Hostname v),
          Port = (if Port v < 0 then 0 else Port v),
          CertificateFile = CertificateFile v,
          KeyFile = KeyFile v,
          ShutdownTimeout = (if ShutdownTimeout v \<le> 0 then 5 else ShutdownTimeout v)\<rparr>)"
    by (simp add: NewHttpServer_def Let_def apply_opts_foldl)
  have setters: "server_Hostname x v = v\<lparr>Hostname := x\<rparr>"
      "server_Port p v = v\<lparr>Port := p\<rparr>"
      "server_TLS c k v = v\<lparr>CertificateFile := c, KeyFile := k\<rparr>"
      "server_ShutdownTimeout t v = v\<lparr>ShutdownTimeout := t\<rparr>"
    by (simp_all add: server_option_defs)
  have last_host: "Hostname (options (NewHttpServer h (os @ [server_Hostname x])))
       = (if x = [] then ''localhost'' else x)"
    by (simp add: NewHttpServer_def Let_def apply_opts_snoc server_Hostname_def)
  have last_port: "Port (options (NewHttpServer h (os @ [server_Port p])))
       = (if p < 0 then 0 else p)"
    by (simp add: NewHttpServer_def Let_def apply_opts_snoc server_Port_def)
  have last_timeout: "ShutdownTimeout (options (NewHttpServer h (os @ [server_ShutdownTimeout t])))
       = (if t \<le> 0 then 5 else t)"
    by (simp add: NewHttpServer_def Let_def apply_opts_snoc server_ShutdownTimeout_def)
  have last_tls: "CertificateFile (options (NewHttpServer h (os @ [server_TLS c k]))) = c"
      "KeyFile (options (NewHttpServer h (os @ [server_TLS c k]))) = k"
    by (simp_all add: NewHttpServer_def Let_def apply_opts_snoc server_TLS_def)
  have none: "options (NewHttpServer h []) =
       \<lparr>Hostname = ''localhost'', Port = 0, CertificateFile = [], KeyFile = [],
        ShutdownTimeout = 5\<rparr>"
    by (simp add: NewHttpServer_def Let_def server_zero_def)
  have supplied: "options (NewHttpServer h
        [server_Hostname ''example.org'', server_Port 8080,
         server_TLS ''cert.pem'' ''key.pem'', server_ShutdownTimeout 30]) =
       \<lparr>Hostname = ''example.org'', Port = 8080, CertificateFile = ''cert.pem'',
        KeyFile = ''key.pem'', ShutdownTimeout = 30\<rparr>"
    by (simp add: NewHttpServer_def Let_def server_option_defs)
  have kept: "options (snd (HttpServer_Start e hs)) = options hs"
      "map_option options (snd (HttpServer_Stop e (Some hs))) = Some (options hs)"
    by (simp_all add: HttpServer_Start_def HttpServer_Stop_def split: sum.split)
  from loop setters last_host last_port last_timeout last_tls none supplied kept
  show ?thesis by blast
qed

theorem NewHttpServer_defaults_witness:
  "options (NewHttpServer NewChiHandler [server_Port (- 1), server_ShutdownTimeout 0]) =
     \<lparr>Hostname = ''localhost'', Port = 0, CertificateFile = [], KeyFile = [],
      ShutdownTimeout = 5\<rparr>
   \<and> options (NewHttpServer NewChiHandler
        [server_Hostname ''a.example'', server_Port 443, server_Hostname ''b.example'',
         server_TLS ''cert.pem'' [], server_ShutdownTimeout 12]) =
     \<lparr>Hostname = ''b.example'', Port = 443, CertificateFile = ''cert.pem'', KeyFile = [],
      ShutdownTimeout = 12\<rparr>
   \<and> options (snd (HttpServer_Start env_ok
        (NewHttpServer NewChiHandler [server_Port (- 1), server_ShutdownTimeout 0]))) =
     \<lparr>Hostname = ''localhost'', Port = 0, CertificateFile = [], KeyFile = [],
      ShutdownTimeout = 5\<rparr>"
proof -
  let ?a = "[server_Port (- 1), server_ShutdownTimeout 0]"
  let ?b = "[server_Hostname ''a.example'', server_Port 443, server_Hostname ''b.example'',
             server_TLS ''cert.pem'' [], server_ShutdownTimeout 12]"
  note a = NewHttpServer_defaults
    [where h = NewChiHandler and os = ?a and e = env_ok
       and hs = "NewHttpServer NewChiHandler ?a"]
  note b = NewHttpServer_defaults [where h = NewChiHandler and os = ?b]
  have r1: "options (NewHttpServer NewChiHandler ?a) =
     \<lparr>Hostname = ''localhost'', Port = 0, CertificateFile = [], KeyFile = [],
      ShutdownTimeout = 5\<rparr>"
    by (subst a [THEN conjunct1]) (simp add: Let_def server_option_defs)
  have r2: "options (NewHttpServer NewChiHandler ?b) =
     \<lparr>Hostname = ''b.example'', Port = 443, CertificateFile = ''cert.pem'', KeyFile = [],
      ShutdownTimeout = 12\<rparr>"
    by (subst b [THEN conjunct1]) (simp add: Let_def server_option_defs)
  from a have "options (snd (HttpServer_Start env_ok (NewHttpServer NewChiHandler ?a)))
      = options (NewHttpServer NewChiHandler ?a)"
    by blast
  with r1 have r3: "options (snd (HttpServer_Start env_ok (NewHttpServer NewChiHandler ?a))) =
     \<lparr>Hostname = ''localhost'', Port = 0, CertificateFile = [], KeyFile = [],
      ShutdownTimeout = 5\<rparr>"
    by simp
  from r1 r2 r3 show ?thesis by simp
qed

text \<open>
  C9. A \<open>Start\<close> whose listen succeeds returns nil and launches exactly one serve loop
  on the listener. The loop serves TLS, with the configured certificate and key files,
  if and only if both file names are non-empty; otherwise it serves plaintext.
\<close>

theorem Start_serves_TLS_iff:
  assumes "net_Listen e (address hs) = Inr l"
  shows "fst (HttpServer_Start e hs) = None
     \<and> (\<exists>sv. serve_loops (snd (HttpServer_Start e hs)) = serve_loops hs @ [sv]
          \<and> (is_TLS sv \<longleftrightarrow> CertificateFile (options hs) \<noteq> [] \<and> KeyFile (options hs) \<noteq> [])
          \<and> sv = (if is_TLS sv
                   then ServeTLS l (CertificateFile (options hs)) (KeyFile (options hs))
                   else Serve l))"
  using assms by (simp add: HttpServer_Start_def)

theorem Start_serves_TLS_iff_witness:
  "net_Listen env_ok (address (NewHttpServer NewChiHandler [server_TLS ''cert.pem'' []]))
     = Inr ''127.0.0.1:40123''
   \<and> serve_loops (snd (HttpServer_Start env_ok
        (NewHttpServer NewChiHandler [server_TLS ''cert.pem'' []]))) = [Serve ''127.0.0.1:40123'']
   \<and> serve_loops (snd (HttpServer_Start env_ok
        (NewHttpServer NewChiHandler [server_TLS ''cert.pem'' ''key.pem''])))
       = [ServeTLS ''127.0.0.1:40123'' ''cert.pem'' ''key.pem'']"
proof -
  have l1: "net_Listen env_ok (address (NewHttpServer NewChiHandler [server_TLS ''cert.pem'' []]))
      = Inr ''127.0.0.1:40123''"
    by (simp add: env_ok_def)
  have l2: "net_Listen env_ok
      (address (NewHttpServer NewChiHandler [server_TLS ''cert.pem'' ''key.pem'']))
      = Inr ''127.0.0.1:40123''"
    by (simp add: env_ok_def)
  have o1: "options (NewHttpServer NewChiHandler [server_TLS ''cert.pem'' []])
      = \<lparr>Hostname = ''localhost'', Port = 0, CertificateFile = ''cert.pem'', KeyFile = [],
         ShutdownTimeout = 5\<rparr>"
    by (simp add: NewHttpServer_def Let_def server_option_defs)
  have o2: "options (NewHttpServer NewChiHandler [server_TLS ''cert.pem'' ''key.pem''])
      = \<lparr>Hostname = ''localhost'', Port = 0, CertificateFile = ''cert.pem'',
         KeyFile = ''key.pem'', ShutdownTimeout = 5\<rparr>"
    by (simp add: NewHttpServer_def Let_def server_option_defs)
  have s0: "serve_loops (NewHttpServer NewChiHandler os) = []" for os
    by (simp add: NewHttpServer_def Let_def)
  from Start_serves_TLS_iff [OF l1] Start_serves_TLS_iff [OF l2] l1 show ?thesis
    by (auto simp: o1 o2 s0)
qed

text \<open>
  C10. Before \<open>Start\<close>, \<open>Address\<close> returns the configured host name and port after the
  defaults, joined by a colon: it is never empty, and "localhost:0" when no host name
  was given and the port asked for is zero or negative. After a \<open>Start\<close> whose listen
  succeeded it returns the address the listener resolved to; after a failed one it
  returns what it returned before.
\<close>

theorem Address_before_and_after_Start:
  "Address (NewHttpServer h os) =
     (if Hostname (apply_opts os server_zero) = [] then ''localhost''
      else Hostname (apply_opts os server_zero)) @ '':'' @
     sprint_d (if Port (apply_opts os server_zero) < 0 then 0
               else Port (apply_opts os server_zero))
   \<and> Address (NewHttpServer h os) \<noteq> []
   \<and> (Hostname (apply_opts os server_zero) = [] \<and> Port (apply_opts os server_zero) \<le> 0
        \<longrightarrow> Address (NewHttpServer h os) = ''localhost:0'')
   \<and> (net_Listen e (address hs) = Inr l \<longrightarrow> Address (snd (HttpServer_Start e hs)) = l)
   \<and> (net_Listen e (address hs) = Inl err
        \<longrightarrow> Address (snd (HttpServer_Start e hs)) = Address hs)"
proof -
  have a: "Address (NewHttpServer h os) =
     (if Hostname (apply_opts os server_zero) = [] then ''localhost''
      else Hostname (apply_opts os server_zero)) @ '':'' @
     sprint_d (if Port (apply_opts os server_zero) < 0 then 0
               else Port (apply_opts os server_zero))"
    by (simp add: Address_def NewHttpServer_def Let_def)
  have b: "Address (NewHttpServer h os) \<noteq> []"
    unfolding a by simp
  have c: "Hostname (apply_opts os server_zero) = [] \<and> Port (apply_opts os server_zero) \<le> 0
        \<longrightarrow> Address (NewHttpServer h os) = ''localhost:0''"
    unfolding a by (auto simp: sprint_d_zero)
  have d: "net_Listen e (address hs) = Inr l \<longrightarrow> Address (snd (HttpServer_Start e hs)) = l"
    by (simp add: Address_def HttpServer_Start_def)
  have f: "net_Listen e (address hs) = Inl err
        \<longrightarrow> Address (snd (HttpServer_Start e hs)) = Address hs"
    by (simp add: Address_def HttpServer_Start_def)
  from a b c d f show ?thesis by blast
qed

theorem Address_before_and_after_Start_witness:
  "Address (NewHttpServer NewChiHandler [server_Hostname ''localhost'', server_Port (- 1)])
     = ''localhost:0''
   \<and> Address (NewHttpServer NewChiHandler [server_Hostname ''example.org'', server_Port 8080])
     = ''example.org:8080''
   \<and> Address (snd (HttpServer_Start env_ok
        (NewHttpServer NewChiHandler [server_Hostname ''localhost'', server_Port (- 1)])))
     = ''127.0.0.1:40123''
   \<and> Address (snd (HttpServer_Start env_busy
        (NewHttpServer NewChiHandler [server_Hostname ''localhost'', server_Port (- 1)])))
     = ''localhost:0''"
proof -
  let ?os = "[server_Hostname ''localhost'', server_Port (- 1)]"
  let ?hs = "NewHttpServer NewChiHandler ?os"
  have d8080: "sprint_d 8080 = ''8080''"
    by (simp add: sprint_d_def dec_nat.simps)
  have l1: "net_Listen env_ok (address ?hs) = Inr ''127.0.0.1:40123''"
    by (simp add: env_ok_def)
  have l2: "net_Listen env_busy (address ?hs) = Inl ''bind: address already in use''"
    by (simp add: env_busy_def)
  from Address_before_and_after_Start
         [of NewChiHandler ?os env_ok ?hs "''127.0.0.1:40123''" undefined]
  have r1: "Address ?hs = ''localhost:0''"
      and r3: "Address (snd (HttpServer_Start env_ok ?hs)) = ''127.0.0.1:40123''"
    using l1 by (simp_all add: server_option_defs sprint_d_zero)
  from Address_before_and_after_Start
         [of NewChiHandler ?os env_busy ?hs undefined "''bind: address already in use''"]
  have r4: "Address (snd (HttpServer_Start env_busy ?hs)) = ''localhost:0''"
    using l2 r1 by simp
  from Address_before_and_after_Start
         [of NewChiHandler "[server_Hostname ''example.org'', server_Port 8080]"
             env_ok ?hs undefined undefined]
  have r2: "Address (NewHttpServer NewChiHandler
               [server_Hostname ''example.org'', server_Port 8080]) = ''example.org:8080''"
    by (simp add: server_option_defs d8080)
  from r1 r2 r3 r4 show ?thesis by simp
qed

section \<open>The decorator chain\<close>

lemma and_then_assoc: "and_then (and_then p f) g = and_then p (\<lambda>w. and_then (f w) g)"
  by (simp add: and_then_def split: prod.split)

lemma and_then_start: "and_then (w, []) f = f w"
  by (simp add: and_then_def split: prod.split)

lemma and_then_finish: "and_then p (\<lambda>w. (w, [])) = p"
  by (simp add: and_then_def split: prod.split)

lemma seq_funcs_append:
  "seq_funcs (fs @ gs) w r = and_then (seq_funcs fs w r) (\<lambda>w'. seq_funcs gs w' r)"
proof (induction fs arbitrary: w)
  case Nil
  show ?case by (simp add: and_then_start)
next
  case (Cons f fs)
  show ?case by (simp add: Cons.IH and_then_assoc)
qed

lemma seq_funcs_single: "seq_funcs [f] w r = f w r"
  by (simp add: and_then_finish)

lemma decorateHandler_apply:
  "decorateHandler h ed w r =
     and_then
       (and_then (if Type ed = Before then DecoratorFunc ed w r else (w, [])) (\<lambda>w1. h w1 r))
       (\<lambda>w2. if Type ed = After then DecoratorFunc ed w2 r else (w2, []))"
  by (simp add: decorateHandler_def)

text \<open>
  Wrapping one decorator at a time, as the loop of \<open>Endpoints\<close> does, composes the
  Before functions in the reverse of their order in the sequence, then the base
  handler, then the After functions in their order in the sequence.
\<close>

lemma decorate_all_order:
  "foldl decorateHandler h ds w r =
     seq_funcs (rev (phase_funcs Before ds) @ h # phase_funcs After ds) w r"
proof (induction ds arbitrary: w rule: rev_induct)
  case Nil
  show ?case by (simp add: phase_funcs_def and_then_finish)
next
  case (snoc d ds)
  define g where "g = foldl decorateHandler h ds"
  define fs where "fs = rev (phase_funcs Before ds) @ h # phase_funcs After ds"
  have IH: "g w' r = seq_funcs fs w' r" for w'
    unfolding g_def fs_def by (rule snoc.IH)
  have step: "foldl decorateHandler h (ds @ [d]) w r = decorateHandler g d w r"
    unfolding g_def by simp
  show ?case
  proof (cases "Type d")
    case Before
    have "decorateHandler g d w r = and_then (DecoratorFunc d w r) (\<lambda>w1. seq_funcs fs w1 r)"
      by (simp add: decorateHandler_apply [of g d w r] Before IH and_then_finish)
    also have "\<dots> = seq_funcs (DecoratorFunc d # fs) w r"
      by simp
    also have "DecoratorFunc d # fs =
        rev (phase_funcs Before (ds @ [d])) @ h # phase_funcs After (ds @ [d])"
      by (simp add: fs_def phase_funcs_def Before)
    finally show ?thesis
      by (simp only: step)
  next
    case After
    have "decorateHandler g d w r = and_then (seq_funcs fs w r) (\<lambda>w2. DecoratorFunc d w2 r)"
      by (simp add: decorateHandler_apply [of g d w r] After IH and_then_start)
    also have "\<dots> = seq_funcs (fs @ [DecoratorFunc d]) w r"
      by (simp only: seq_funcs_append [where gs = "[DecoratorFunc d]"] seq_funcs_single)
    also have "fs @ [DecoratorFunc d] =
        rev (phase_funcs Before (ds @ [d])) @ h # phase_funcs After (ds @ [d])"
      by (simp add: fs_def phase_funcs_def After)
    finally show ?thesis
      by (simp only: step)
  qed
qed

text \<open>
  C1. The endpoint \<open>ep_order\<close> has the decorator sequence B1, B2, A1, A2 around the
  base handler H. The handler that \<open>Endpoints\<close> registers for it writes, for a request,
  B2, B1, H, A1, A2: the two Before decorators run in the reverse of their order in
  the sequence, the two After decorators in their order.
\<close>

theorem ep_order_runs_B2_first:
  "fst (Endpoints svc_plain [ep_order] otel_zero) = None
   \<and> bodies (svc_handler (fst (snd (Endpoints svc_plain [ep_order] otel_zero)))) get_root
       = [(''GET'', ''/'', ''B2B1HA1A2'')]"
  by (simp add: svc_plain_def Init_def NewService_def service_zero_def Let_def
      NewChiHandler_def router_Method_def bodies_def ep_order_def BeforeDecorator_def
      AfterDecorator_def decorateHandler_def and_then_def writes_def Write_def
      WriteHeader_def new_ResponseWriter_def)

section \<open>Tracing\<close>

lemma trace_apply:
  "trace h tp tn sn w r =
     (fst (h w (r\<lparr>req_Context := WithSpan (tp_id tp) tn sn (req_Context r)\<rparr>)),
      [SpanStart (tp_id tp) tn sn,
       SetAttributes [(''http.method'', Method r), (''http.url'', URL r),
                      (''http.target'', RequestURI r), (''http.host'', Host r),
                      (''http.scheme'', URL_Scheme r)]] @
      snd (h w (r\<lparr>req_Context := WithSpan (tp_id tp) tn sn (req_Context r)\<rparr>)) @
      [SpanEnd sn])"
  by (simp add: trace_def Let_def split: prod.split)

text \<open>
  C7 as stated, that for every inner handler and every request the wrapped handler
  leaves the response the unwrapped handler would, fails: the inner handler runs on
  the request rebound to the span's context, and \<open>span_echo\<close> answers differently there.
\<close>

theorem trace_changes_span_echo:
  "\<not> (\<forall>h tp tn sn w r. fst (trace h tp tn sn w r) = fst (h w r))"
proof
  assume "\<forall>h tp tn sn w r. fst (trace h tp tn sn w r) = fst (h w r)"
  then have "fst (trace span_echo tp_example ''test'' ''getRoot'' new_ResponseWriter get_root)
      = fst (span_echo new_ResponseWriter get_root)"
    by blast
  then show False
    by (simp add: trace_apply span_echo_def get_root_def Write_def WriteHeader_def
        new_ResponseWriter_def)
qed

text \<open>
  C7, amended. The handler wrapped by the tracing middleware leaves the status and body
  that the inner handler leaves for the same request rebound to the context carrying
  the new span, and emits the inner handler's events between the span's start and
  attributes and the span's end. For an inner handler whose response does not depend
  on the request's context, the response is that of the unwrapped handler.
\<close>

theorem trace_preserves_response:
  "fst (trace h tp tn sn w r) =
     fst (h w (r\<lparr>req_Context := WithSpan (tp_id tp) tn sn (req_Context r)\<rparr>))
   \<and> (\<exists>attrs. snd (trace h tp tn sn w r) =
         [SpanStart (tp_id tp) tn sn, SetAttributes attrs] @
         snd (h w (r\<lparr>req_Context := WithSpan (tp_id tp) tn sn (req_Context r)\<rparr>)) @
         [SpanEnd sn])
   \<and> ((\<forall>c. fst (h w (r\<lparr>req_Context := c\<rparr>)) = fst (h w r))
        \<longrightarrow> fst (trace h tp tn sn w r) = fst (h w r))"
  by (simp add: trace_apply)

theorem trace_preserves_response_witness:
  "(\<forall>c. fst (stubHandler ''Hello World!'' 200 new_ResponseWriter (get_root\<lparr>req_Context := c\<rparr>))
        = fst (stubHandler ''Hello World!'' 200 new_ResponseWriter get_root))
   \<and> fst (trace (stubHandler ''Hello World!'' 200) tp_example ''test'' ''getRoot''
            new_ResponseWriter get_root)
       = \<lparr>status = Some 200, body = ''Hello World!''\<rparr>"
proof -
  have indep: "\<forall>c. fst (stubHandler ''Hello World!'' 200 new_ResponseWriter
                          (get_root\<lparr>req_Context := c\<rparr>))
        = fst (stubHandler ''Hello World!'' 200 new_ResponseWriter get_root)"
    by (simp add: stubHandler_def)
  have plain: "fst (stubHandler ''Hello World!'' 200 new_ResponseWriter get_root)
        = \<lparr>status = Some 200, body = ''Hello World!''\<rparr>"
    by (simp add: stubHandler_def Write_def WriteHeader_def new_ResponseWriter_def)
  from trace_preserves_response
         [of "stubHandler ''Hello World!'' 200" tp_example "''test''" "''getRoot''"
             new_ResponseWriter get_root]
       indep plain
  show ?thesis by simp
qed

section \<open>Endpoint registration and the tracer-provider\<close>

lemma Endpoints_opts:
  "opts (fst (snd (Endpoints s eps ot))) = opts s"
  by (induction s eps ot rule: Endpoints.induct)
     (auto simp: Let_def initTracer_def split: option.splits)

text \<open>
  With a sampler and an exporter configured, every endpoint registered constructs a
  tracer-provider of its own.
\<close>

lemma Endpoints_constructs:
  "Sampler (opts s) = Some sa \<Longrightarrow> Exporter (opts s) = Some ex \<Longrightarrow>
   fst (Endpoints s eps ot) = None
   \<and> length (constructed (snd (snd (Endpoints s eps ot))))
       = length (constructed ot) + length eps"
proof (induction eps arbitrary: s ot)
  case Nil
  show ?case by simp
next
  case (Cons ep eps)
  show ?case
    using Cons.prems
    by (simp add: Let_def initTracer_def Cons.IH)
qed

text \<open>
  C3. The service \<open>svc_traced\<close> has tracing configured. Registering the two endpoints
  \<open>ep_a\<close> and \<open>ep_b\<close> constructs two tracer-providers, 0 and 1: the handler of the
  first endpoint starts its spans under provider 0, that of the second under provider 1,
  and the service keeps provider 1 only.
\<close>

theorem two_endpoints_two_providers:
  "fst (Endpoints svc_traced [ep_a, ep_b] otel_zero) = None
   \<and> map tp_id (constructed (snd (snd (Endpoints svc_traced [ep_a, ep_b] otel_zero)))) = [0, 1]
   \<and> providers_used (svc_handler (fst (snd (Endpoints svc_traced [ep_a, ep_b] otel_zero))))
        get_root = [[0], [1]]
   \<and> map_option tp_id (traceProvider (fst (snd (Endpoints svc_traced [ep_a, ep_b] otel_zero))))
       = Some 1"
  by (simp add: svc_traced_def Init_def NewService_def service_zero_def service_Tracing_def
      Let_def initTracer_def otel_zero_def NewChiHandler_def router_Method_def
      providers_used_def trace_apply ep_a_def ep_b_def writes_def)

section \<open>Facts about the example inputs\<close>

lemma apply_BeforeStart:
  "apply_opts (map service_BeforeStart fns) v = v\<lparr>BeforeStart := BeforeStart v @ fns\<rparr>"
  by (induction fns arbitrary: v) (simp_all add: service_BeforeStart_def)

lemma apply_AfterStart:
  "apply_opts (map service_AfterStart fns) v = v\<lparr>AfterStart := AfterStart v @ fns\<rparr>"
  by (induction fns arbitrary: v) (simp_all add: service_AfterStart_def)

lemma apply_BeforeStop:
  "apply_opts (map service_BeforeStop fns) v = v\<lparr>BeforeStop := BeforeStop v @ fns\<rparr>"
  by (induction fns arbitrary: v) (simp_all add: service_BeforeStop_def)

lemma apply_AfterStop:
  "apply_opts (map service_AfterStop fns) v = v\<lparr>AfterStop := AfterStop v @ fns\<rparr>"
  by (induction fns arbitrary: v) (simp_all add: service_AfterStop_def)

lemma apply_opts_append: "apply_opts (fs @ gs) v = apply_opts gs (apply_opts fs v)"
  by (induction fs arbitrary: v) simp_all

lemma svc_hooks_fields:
  "BeforeStart (opts (svc_hooks a b c d)) = a"
  "AfterStart (opts (svc_hooks a b c d)) = b"
  "BeforeStop (opts (svc_hooks a b c d)) = c"
  "AfterStop (opts (svc_hooks a b c d)) = d"
  "Signal (opts (svc_hooks a b c d)) = False"
  "Context (opts (svc_hooks a b c d)) = Some Background"
  "server (svc_hooks a b c d) = None"
  "traceProvider (svc_hooks a b c d) = None"
  "watchers (svc_hooks a b c d) = []"
  by (simp_all add: svc_hooks_def Init_def NewService_def Let_def service_zero_def
      apply_opts_append apply_BeforeStart apply_AfterStart apply_BeforeStop apply_AfterStop)

lemma count_hooks:
  "count_ok n = (None, Suc n)" "count_fail msg n = (Some msg, Suc n)"
  by (simp_all add: count_ok_def count_fail_def)

lemma svc_started_fields:
  "BeforeStop (opts (svc_started c d tp)) = c"
  "AfterStop (opts (svc_started c d tp)) = d"
  "Context (opts (svc_started c d tp)) = Some Background"
  "server (svc_started c d tp) = Some running"
  "traceProvider (svc_started c d tp) = tp"
  by (simp_all add: svc_started_def svc_hooks_fields)

lemma running_receivers: "exit_receivers running = 1"
  by (simp add: running_def HttpServer_Start_def env_ok_def NewHttpServer_def Let_def)

section \<open>Hooks\<close>

lemma run_hooks_all_ok: "all_ok fns u \<Longrightarrow> run_hooks fns u = (None, effects fns u)"
proof (induction fns arbitrary: u)
  case Nil
  show ?case by simp
next
  case (Cons fn fns)
  from Cons.prems have "fst (fn u) = None" and "all_ok fns (snd (fn u))"
    by simp_all
  with Cons.IH [of "snd (fn u)"] show ?case
    by (cases "fn u") simp
qed

lemma run_hooks_first_failure:
  "first_failure fns u i err \<Longrightarrow> run_hooks fns u = (Some err, effects (take (Suc i) fns) u)"
proof (induction fns arbitrary: u i)
  case Nil
  then show ?case by (simp add: first_failure_def)
next
  case (Cons fn fns)
  show ?case
  proof (cases i)
    case 0
    with Cons.prems have "fst (fn u) = Some err"
      by (simp add: first_failure_def)
    with 0 show ?thesis
      by (cases "fn u") simp
  next
    case (Suc j)
    with Cons.prems have ok: "fst (fn u) = None"
      and ff: "first_failure fns (snd (fn u)) j err"
      by (simp_all add: first_failure_def)
    from Cons.IH [OF ff] ok Suc show ?thesis
      by (cases "fn u") simp
  qed
qed

text \<open>The two cases are all there is: either every hook succeeds or one is the first to fail.\<close>

lemma hooks_cases: "all_ok fns u \<or> (\<exists>i err. first_failure fns u i err)"
proof (induction fns arbitrary: u)
  case Nil
  show ?case by simp
next
  case (Cons fn fns)
  show ?case
  proof (cases "fst (fn u)")
    case (Some err)
    then have "first_failure (fn # fns) u 0 err"
      by (simp add: first_failure_def)
    then show ?thesis by blast
  next
    case None
    from Cons.IH [of "snd (fn u)"] show ?thesis
    proof
      assume "all_ok fns (snd (fn u))"
      with None show ?thesis by simp
    next
      assume "\<exists>i err. first_failure fns (snd (fn u)) i err"
      then obtain i err where "first_failure fns (snd (fn u)) i err" by blast
      with None have "first_failure (fn # fns) u (Suc i) err"
        by (simp add: first_failure_def)
      then show ?thesis by blast
    qed
  qed
qed

lemma effects_append: "effects (fs @ gs) u = effects gs (effects fs u)"
  by (induction fs arbitrary: u) simp_all

section \<open>Stopping a server\<close>

lemma HttpServer_Stop_never_fails: "fst (HttpServer_Stop e p) \<noteq> Returned (Some err)"
  by (simp add: HttpServer_Stop_def drain_def split: option.split)

lemma HttpServer_Stop_blocks:
  "exit_receivers hs = 0 \<Longrightarrow> HttpServer_Stop e (Some hs) = (Blocked, Some hs)"
  by (simp add: HttpServer_Stop_def)

lemma HttpServer_Stop_running:
  "0 < exit_receivers hs \<Longrightarrow>
   HttpServer_Stop e (Some hs) = (Returned None, Some (hs\<lparr>exit_receivers := exit_receivers hs - 1\<rparr>))"
  by (simp add: HttpServer_Stop_def drain_def)

lemma NewHttpServer_no_receiver: "exit_receivers (NewHttpServer h os) = 0"
  by (simp add: NewHttpServer_def Let_def)

lemma Start_one_receiver:
  "net_Listen e (address hs) = Inr l \<Longrightarrow>
   exit_receivers (snd (HttpServer_Start e hs)) = Suc (exit_receivers hs)"
  by (simp add: HttpServer_Start_def)

text \<open>
  C2. On the platform \<open>env_slow\<close> the graceful shutdown of a started server runs past
  its deadline: the drain goroutine gets the error from \<open>Shutdown\<close>, and \<open>Stop\<close>
  returns nil all the same.
\<close>

theorem Stop_drops_drain_error:
  "fst (HttpServer_Start env_slow (NewHttpServer NewChiHandler [])) = None
   \<and> fst (drain env_slow (snd (HttpServer_Start env_slow (NewHttpServer NewChiHandler []))))
       = Some ''context deadline exceeded''
   \<and> fst (HttpServer_Stop env_slow
            (Some (snd (HttpServer_Start env_slow (NewHttpServer NewChiHandler [])))))
       = Returned None"
  by (simp add: HttpServer_Start_def HttpServer_Stop_def drain_def env_slow_def
      NewHttpServer_def Let_def)

text \<open>
  C4 as stated, that \<open>Stop\<close> before \<open>Start\<close> returns a defined error, fails: on a server
  that was constructed and never started, \<open>Stop\<close> does not return at all.
\<close>

theorem Stop_before_Start_does_not_return:
  "\<not> (\<exists>r. fst (HttpServer_Stop env_ok (Some (NewHttpServer NewChiHandler []))) = Returned r)"
  by (simp add: HttpServer_Stop_def NewHttpServer_def Let_def)

text \<open>
  C4, amended. \<open>Stop\<close> on a server that was never started does not return: the send on
  the rendezvous channel blocks, since no drain goroutine is waiting, and the server is
  left as it was. The same holds for a second \<open>Stop\<close> on a server started once, after
  the first \<open>Stop\<close> returned nil. \<open>Service.Stop\<close> on a service that was never started
  runs the BeforeStop hooks and, when none of them fails, panics on the nil server; on a
  service whose server has no drain goroutine left it runs the BeforeStop hooks and then
  blocks in the same way. In both cases the hooks' effects stay, and the service, the
  AfterStop hooks and the tracer-provider are untouched. No guard turns these calls
  into errors.
\<close>

theorem Stop_outside_running:
  "HttpServer_Stop e (Some (NewHttpServer h os)) = (Blocked, Some (NewHttpServer h os))
   \<and> (net_Listen e (address (NewHttpServer h os)) = Inr l \<longrightarrow>
        HttpServer_Stop e (Some (snd (HttpServer_Start e (NewHttpServer h os))))
          = (Returned None,
             Some ((snd (HttpServer_Start e (NewHttpServer h os)))\<lparr>exit_receivers := 0\<rparr>))
        \<and> HttpServer_Stop e
              (Some ((snd (HttpServer_Start e (NewHttpServer h os)))\<lparr>exit_receivers := 0\<rparr>))
          = (Blocked,
             Some ((snd (HttpServer_Start e (NewHttpServer h os)))\<lparr>exit_receivers := 0\<rparr>)))
   \<and> (server s = None \<and> all_ok (BeforeStop (opts s)) u \<longrightarrow>
        Service_Stop e s u ot = (Panicked, s, effects (BeforeStop (opts s)) u, ot))
   \<and> (server s = Some hs \<and> exit_receivers hs = 0 \<and> all_ok (BeforeStop (opts s)) u \<longrightarrow>
        Service_Stop e s u ot = (Blocked, s, effects (BeforeStop (opts s)) u, ot))"
proof -
  have a: "HttpServer_Stop e (Some (NewHttpServer h os)) = (Blocked, Some (NewHttpServer h os))"
    by (simp add: HttpServer_Stop_blocks NewHttpServer_no_receiver)
  have b: "HttpServer_Stop e (Some (snd (HttpServer_Start e (NewHttpServer h os))))
          = (Returned None,
             Some ((snd (HttpServer_Start e (NewHttpServer h os)))\<lparr>exit_receivers := 0\<rparr>))
        \<and> HttpServer_Stop e
              (Some ((snd (HttpServer_Start e (NewHttpServer h os)))\<lparr>exit_receivers := 0\<rparr>))
          = (Blocked,
             Some ((snd (HttpServer_Start e (NewHttpServer h os)))\<lparr>exit_receivers := 0\<rparr>))"
    if "net_Listen e (address (NewHttpServer h os)) = Inr l"
  proof -
    from Start_one_receiver [OF that]
    have one: "exit_receivers (snd (HttpServer_Start e (NewHttpServer h os))) = 1"
      by (simp add: NewHttpServer_no_receiver)
    then show ?thesis
      by (simp add: HttpServer_Stop_running HttpServer_Stop_blocks)
  qed
  have c: "Service_Stop e s u ot = (Panicked, s, effects (BeforeStop (opts s)) u, ot)"
    if "server s = None \<and> all_ok (BeforeStop (opts s)) u"
  proof -
    from that have "s\<lparr>server := None\<rparr> = s"
      by (metis Service.surjective Service.update_convs(4))
    with that show ?thesis
      by (simp add: Service_Stop_def Service_Stop_with_def run_hooks_all_ok
          HttpServer_Stop_def)
  qed
  have d: "Service_Stop e s u ot = (Blocked, s, effects (BeforeStop (opts s)) u, ot)"
    if "server s = Some hs \<and> exit_receivers hs = 0 \<and> all_ok (BeforeStop (opts s)) u"
  proof -
    from that have "s\<lparr>server := Some hs\<rparr> = s"
      by (metis Service.surjective Service.update_convs(4))
    with that show ?thesis
      by (simp add: Service_Stop_def Service_Stop_with_def run_hooks_all_ok
          HttpServer_Stop_blocks)
  qed
  from a b c d show ?thesis by blast
qed

lemma svc_counting_first_Stop:
  "Service_Stop env_ok svc_counting 0 otel_zero = (Returned None, svc_stopped, 2, otel_zero)"
  by (simp add: svc_counting_def svc_stopped_def Service_Stop_def Service_Stop_with_def
      svc_started_fields count_hooks HttpServer_Stop_running running_receivers)

theorem Stop_outside_running_witness:
  "net_Listen env_ok (address (NewHttpServer NewChiHandler [server_Port (- 1)]))
     = Inr ''127.0.0.1:40123''
   \<and> HttpServer_Stop env_ok (Some (NewHttpServer NewChiHandler [server_Port (- 1)]))
       = (Blocked, Some (NewHttpServer NewChiHandler [server_Port (- 1)]))
   \<and> fst (HttpServer_Stop env_ok
            (snd (HttpServer_Stop env_ok
                    (Some (snd (HttpServer_Start env_ok
                                  (NewHttpServer NewChiHandler [server_Port (- 1)])))))))
       = Blocked
   \<and> server (svc_hooks [] [] [count_ok] [count_ok]) = None
   \<and> all_ok (BeforeStop (opts (svc_hooks [] [] [count_ok] [count_ok]))) 0
   \<and> Service_Stop env_ok (svc_hooks [] [] [count_ok] [count_ok]) 0 otel_zero
       = (Panicked, svc_hooks [] [] [count_ok] [count_ok], 1, otel_zero)
   \<and> Service_Stop env_ok svc_counting 0 otel_zero = (Returned None, svc_stopped, 2, otel_zero)
   \<and> server svc_stopped = Some (running\<lparr>exit_receivers := 0\<rparr>)
   \<and> exit_receivers (running\<lparr>exit_receivers := 0\<rparr>) = 0
   \<and> all_ok (BeforeStop (opts svc_stopped)) 2
   \<and> Service_Stop env_ok svc_stopped 2 otel_zero = (Blocked, svc_stopped, 3, otel_zero)"
proof -
  let ?new = "NewHttpServer NewChiHandler [server_Port (- 1)]"
  let ?s = "svc_hooks [] [] [count_ok] [count_ok]"
  have l: "net_Listen env_ok (address ?new) = Inr ''127.0.0.1:40123''"
    by (simp add: env_ok_def)
  have n: "server ?s = None"
    by (simp add: svc_hooks_fields)
  have k: "all_ok (BeforeStop (opts ?s)) 0"
    by (simp add: svc_hooks_fields count_hooks)
  have ek: "effects (BeforeStop (opts ?s)) 0 = 1"
    by (simp add: svc_hooks_fields count_hooks)
  have n2: "server svc_stopped = Some (running\<lparr>exit_receivers := 0\<rparr>)"
    by (simp add: svc_stopped_def)
  have z: "exit_receivers (running\<lparr>exit_receivers := 0\<rparr>) = 0"
    by simp
  have k2: "all_ok (BeforeStop (opts svc_stopped)) 2"
    by (simp add: svc_stopped_def svc_counting_def svc_started_fields count_hooks)
  have ek2: "effects (BeforeStop (opts svc_stopped)) 2 = 3"
    by (simp add: svc_stopped_def svc_counting_def svc_started_fields count_hooks)
  note before = Stop_outside_running
         [where e = env_ok and h = NewChiHandler and os = "[server_Port (- 1)]"
            and l = "''127.0.0.1:40123''" and s = ?s and u = 0 and ot = otel_zero
            and hs = running]
  note again = Stop_outside_running
         [where e = env_ok and h = NewChiHandler and os = "[server_Port (- 1)]"
            and l = "''127.0.0.1:40123''" and s = svc_stopped and u = 2 and ot = otel_zero
            and hs = "running\<lparr>exit_receivers := 0\<rparr>"]
  from before have r1: "HttpServer_Stop env_ok (Some ?new) = (Blocked, Some ?new)"
    by blast
  from before l have r2: "fst (HttpServer_Stop env_ok
            (snd (HttpServer_Stop env_ok (Some (snd (HttpServer_Start env_ok ?new))))))
       = Blocked"
    by simp
  from before n k have r3: "Service_Stop env_ok ?s 0 otel_zero = (Panicked, ?s, 1, otel_zero)"
    by (simp add: ek)
  from again n2 z k2
  have r4: "Service_Stop env_ok svc_stopped 2 otel_zero = (Blocked, svc_stopped, 3, otel_zero)"
    by (simp add: ek2)
  from l r1 r2 n k r3 svc_counting_first_Stop n2 z k2 r4 show ?thesis
    by (simp only: simp_thms)
qed

section \<open>The lifecycle of a service\<close>

text \<open>
  C5. \<open>Service.Start\<close> runs the BeforeStart hooks in the order of their registration.
  When one of them is the first to fail, \<open>Start\<close> returns its error, the service is
  as before (no server was constructed or started), and the hooks up to and including
  the failing one have taken effect. When all succeed, a new server is constructed from
  the router, the port and the TLS file names and is started; a failed listen is
  returned at once, with no AfterStart hook run. After a successful listen the AfterStart
  hooks run in order, with the same policy: the first failure is returned, and the
  server stays started and the earlier hooks' effects stay. When nothing fails \<open>Start\<close>
  returns nil, with the watcher launched.
\<close>

theorem Service_Start_sequence:
  fixes s :: "'u Service"
  defines "fresh \<equiv>
     NewHttpServer (svc_handler s)
       [server_Port (svc_Port (opts s)),
        server_TLS (svc_CertificateFile (opts s)) (svc_KeyFile (opts s))]"
  shows
  "(first_failure (BeforeStart (opts s)) u i err \<longrightarrow>
      Service_Start e s u = (Some err, s, effects (take (Suc i) (BeforeStart (opts s))) u))
   \<and> (all_ok (BeforeStart (opts s)) u \<and> net_Listen e (address fresh) = Inl err \<longrightarrow>
      Service_Start e s u =
        (Some err, s\<lparr>server := Some fresh\<rparr>, effects (BeforeStart (opts s)) u))
   \<and> (all_ok (BeforeStart (opts s)) u \<and> net_Listen e (address fresh) = Inr l
        \<and> first_failure (AfterStart (opts s)) (effects (BeforeStart (opts s)) u) i err \<longrightarrow>
      Service_Start e s u =
        (Some err, s\<lparr>server := Some (snd (HttpServer_Start e fresh))\<rparr>,
         effects (take (Suc i) (AfterStart (opts s))) (effects (BeforeStart (opts s)) u)))
   \<and> (all_ok (BeforeStart (opts s)) u \<and> net_Listen e (address fresh) = Inr l
        \<and> all_ok (AfterStart (opts s)) (effects (BeforeStart (opts s)) u) \<longrightarrow>
      Service_Start e s u =
        (None,
         s\<lparr>server := Some (snd (HttpServer_Start e fresh)),
           watchers := watchers s @ [Signal (opts s)]\<rparr>,
         effects (AfterStart (opts s)) (effects (BeforeStart (opts s)) u)))"
proof -
  have a: "Service_Start e s u =
      (Some err, s, effects (take (Suc i) (BeforeStart (opts s))) u)"
    if "first_failure (BeforeStart (opts s)) u i err"
    by (simp add: Service_Start_def run_hooks_first_failure [OF that])
  have b: "Service_Start e s u =
      (Some err, s\<lparr>server := Some fresh\<rparr>, effects (BeforeStart (opts s)) u)"
    if "all_ok (BeforeStart (opts s)) u" and "net_Listen e (address fresh) = Inl err"
  proof -
    from that(2) have "HttpServer_Start e fresh = (Some err, fresh)"
      by (simp add: HttpServer_Start_def)
    then show ?thesis
      by (simp add: Service_Start_def run_hooks_all_ok [OF that(1)] fresh_def)
  qed
  define hs' where "hs' = snd (HttpServer_Start e fresh)"
  have started: "HttpServer_Start e fresh = (None, hs')"
    if "net_Listen e (address fresh) = Inr l"
    using that by (simp add: hs'_def HttpServer_Start_def)
  have c: "Service_Start e s u =
      (Some err, s\<lparr>server := Some (snd (HttpServer_Start e fresh))\<rparr>,
       effects (take (Suc i) (AfterStart (opts s))) (effects (BeforeStart (opts s)) u))"
    if "all_ok (BeforeStart (opts s)) u" and "net_Listen e (address fresh) = Inr l"
      and "first_failure (AfterStart (opts s)) (effects (BeforeStart (opts s)) u) i err"
    unfolding Service_Start_def fresh_def [symmetric]
    by (simp add: run_hooks_all_ok [OF that(1)] run_hooks_first_failure [OF that(3)]
        started [OF that(2)])
  have d: "Service_Start e s u =
      (None,
       s\<lparr>server := Some (snd (HttpServer_Start e fresh)),
         watchers := watchers s @ [Signal (opts s)]\<rparr>,
       effects (AfterStart (opts s)) (effects (BeforeStart (opts s)) u))"
    if "all_ok (BeforeStart (opts s)) u" and "net_Listen e (address fresh) = Inr l"
      and "all_ok (AfterStart (opts s)) (effects (BeforeStart (opts s)) u)"
    unfolding Service_Start_def fresh_def [symmetric]
    by (simp add: run_hooks_all_ok [OF that(1)] run_hooks_all_ok [OF that(3)]
        started [OF that(2)])
  from a b c d show ?thesis by blast
qed

theorem Service_Start_sequence_witness:
  "first_failure
     (BeforeStart (opts (svc_hooks [count_ok, count_fail ''boom'', count_ok] [count_ok] [] [])))
     0 (Suc 0) ''boom''
   \<and> Service_Start env_ok (svc_hooks [count_ok, count_fail ''boom'', count_ok] [count_ok] [] []) 0
       = (Some ''boom'', svc_hooks [count_ok, count_fail ''boom'', count_ok] [count_ok] [] [], 2)
   \<and> all_ok (BeforeStart (opts (svc_hooks [count_ok] [count_ok] [] []))) 0
   \<and> fst (Service_Start env_busy (svc_hooks [count_ok] [count_ok] [] []) 0)
       = Some ''bind: address already in use''
   \<and> snd (snd (Service_Start env_busy (svc_hooks [count_ok] [count_ok] [] []) 0)) = 1
   \<and> first_failure (AfterStart (opts (svc_hooks [count_ok] [count_fail ''late'', count_ok] [] [])))
        1 0 ''late''
   \<and> fst (Service_Start env_ok (svc_hooks [count_ok] [count_fail ''late'', count_ok] [] []) 0)
       = Some ''late''
   \<and> snd (snd (Service_Start env_ok (svc_hooks [count_ok] [count_fail ''late'', count_ok] [] []) 0))
       = 2
   \<and> map_option Address
        (server (fst (snd (Service_Start env_ok
           (svc_hooks [count_ok] [count_fail ''late'', count_ok] [] []) 0))))
       = Some ''127.0.0.1:40123''
   \<and> all_ok (AfterStart (opts (svc_hooks [count_ok] [count_ok] [] []))) 1
   \<and> fst (Service_Start env_ok (svc_hooks [count_ok] [count_ok] [] []) 0) = None
   \<and> snd (snd (Service_Start env_ok (svc_hooks [count_ok] [count_ok] [] []) 0)) = 2
   \<and> watchers (fst (snd (Service_Start env_ok (svc_hooks [count_ok] [count_ok] [] []) 0)))
       = [False]"
proof -
  let ?s1 = "svc_hooks [count_ok, count_fail ''boom'', count_ok] [count_ok] [] []"
  let ?s2 = "svc_hooks [count_ok] [count_ok] [] []"
  let ?s3 = "svc_hooks [count_ok] [count_fail ''late'', count_ok] [] []"
  have ok_listen: "net_Listen env_ok a = Inr ''127.0.0.1:40123''" for a
    by (simp add: env_ok_def)
  have busy_listen: "net_Listen env_busy a = Inl ''bind: address already in use''" for a
    by (simp add: env_busy_def)
  have f1: "first_failure (BeforeStart (opts ?s1)) 0 (Suc 0) ''boom''"
    by (simp add: first_failure_def svc_hooks_fields count_hooks)
  have k2: "all_ok (BeforeStart (opts ?s2)) 0"
    by (simp add: svc_hooks_fields count_hooks)
  have k3: "all_ok (BeforeStart (opts ?s3)) 0"
    by (simp add: svc_hooks_fields count_hooks)
  have e2: "effects (BeforeStart (opts ?s2)) 0 = 1" "effects (BeforeStart (opts ?s3)) 0 = 1"
    by (simp_all add: svc_hooks_fields count_hooks)
  have f3: "first_failure (AfterStart (opts ?s3)) 1 0 ''late''"
    by (simp add: first_failure_def svc_hooks_fields count_hooks)
  have k4: "all_ok (AfterStart (opts ?s2)) 1"
    by (simp add: svc_hooks_fields count_hooks)
  from Service_Start_sequence [where s = ?s1 and e = env_ok and u = 0 and i = "Suc 0"
         and err = "''boom''"] f1
  have r1: "Service_Start env_ok ?s1 0 = (Some ''boom'', ?s1, 2)"
    by (simp add: svc_hooks_fields count_hooks)
  from Service_Start_sequence [where s = ?s2 and e = env_busy and u = 0
         and err = "''bind: address already in use''"] k2 busy_listen
  have r2: "fst (Service_Start env_busy ?s2 0) = Some ''bind: address already in use''"
      "snd (snd (Service_Start env_busy ?s2 0)) = 1"
    by (simp_all add: e2)
  from Service_Start_sequence [where s = ?s3 and e = env_ok and u = 0 and i = 0
         and err = "''late''" and l = "''127.0.0.1:40123''"] k3 ok_listen f3
  have r3: "fst (Service_Start env_ok ?s3 0) = Some ''late''"
      "snd (snd (Service_Start env_ok ?s3 0)) = 2"
      "map_option Address (server (fst (snd (Service_Start env_ok ?s3 0))))
         = Some ''127.0.0.1:40123''"
    by (simp_all add: e2 svc_hooks_fields count_hooks Address_def HttpServer_Start_def ok_listen)
  from Service_Start_sequence [where s = ?s2 and e = env_ok and u = 0
         and l = "''127.0.0.1:40123''"] k2 ok_listen k4
  have r4: "fst (Service_Start env_ok ?s2 0) = None"
      "snd (snd (Service_Start env_ok ?s2 0)) = 2"
      "watchers (fst (snd (Service_Start env_ok ?s2 0))) = [False]"
    by (simp_all add: e2 svc_hooks_fields count_hooks)
  from f1 r1 k2 r2 f3 r3 k4 r4 show ?thesis
    by (simp only: e2 simp_thms)
qed

text \<open>
  C6. \<open>Service.Stop\<close> runs the BeforeStop hooks in the order of their registration and
  returns the error of the first that fails, with no later step taken. Otherwise it
  stops the server and returns the error of that stop, if any. Otherwise it runs the
  AfterStop hooks in order and returns the error of the first that fails. Otherwise,
  when a tracer-provider was initialised, it shuts that provider down under the
  configured context and returns the result, which is nil when the shutdown succeeds;
  when none was initialised it returns nil. In the repository the server's stop is
  \<open>HttpServer.Stop\<close>, which on a started server returns nil.
\<close>

theorem Service_Stop_sequence:
  "(first_failure (BeforeStop (opts s)) u i err \<longrightarrow>
      Service_Stop_with stop e s u ot =
        (Returned (Some err), s, effects (take (Suc i) (BeforeStop (opts s))) u, ot))
   \<and> (all_ok (BeforeStop (opts s)) u \<and> stop (server s) = (Returned (Some err), p) \<longrightarrow>
      Service_Stop_with stop e s u ot =
        (Returned (Some err), s\<lparr>server := p\<rparr>, effects (BeforeStop (opts s)) u, ot))
   \<and> (all_ok (BeforeStop (opts s)) u \<and> stop (server s) = (Returned None, p)
        \<and> first_failure (AfterStop (opts s)) (effects (BeforeStop (opts s)) u) i err \<longrightarrow>
      Service_Stop_with stop e s u ot =
        (Returned (Some err), s\<lparr>server := p\<rparr>,
         effects (take (Suc i) (AfterStop (opts s))) (effects (BeforeStop (opts s)) u), ot))
   \<and> (all_ok (BeforeStop (opts s)) u \<and> stop (server s) = (Returned None, p)
        \<and> all_ok (AfterStop (opts s)) (effects (BeforeStop (opts s)) u)
        \<and> traceProvider s = Some tp \<longrightarrow>
      Service_Stop_with stop e s u ot =
        (Returned (tp_Shutdown e (tp_id tp) (Context (opts s))), s\<lparr>server := p\<rparr>,
         effects (AfterStop (opts s)) (effects (BeforeStop (opts s)) u),
         ot\<lparr>shut_down := shut_down ot @ [(tp_id tp, Context (opts s))]\<rparr>))
   \<and> (all_ok (BeforeStop (opts s)) u \<and> stop (server s) = (Returned None, p)
        \<and> all_ok (AfterStop (opts s)) (effects (BeforeStop (opts s)) u)
        \<and> traceProvider s = None \<longrightarrow>
      Service_Stop_with stop e s u ot =
        (Returned None, s\<lparr>server := p\<rparr>,
         effects (AfterStop (opts s)) (effects (BeforeStop (opts s)) u), ot))
   \<and> Service_Stop e s u ot = Service_Stop_with (HttpServer_Stop e) e s u ot
   \<and> (server s = Some hs \<and> 0 < exit_receivers hs \<longrightarrow>
        HttpServer_Stop e (server s) =
          (Returned None, Some (hs\<lparr>exit_receivers := exit_receivers hs - 1\<rparr>)))"
proof -
  have a: "Service_Stop_with stop e s u ot =
        (Returned (Some err), s, effects (take (Suc i) (BeforeStop (opts s))) u, ot)"
    if "first_failure (BeforeStop (opts s)) u i err"
    by (simp add: Service_Stop_with_def run_hooks_first_failure [OF that])
  have b: "Service_Stop_with stop e s u ot =
        (Returned (Some err), s\<lparr>server := p\<rparr>, effects (BeforeStop (opts s)) u, ot)"
    if "all_ok (BeforeStop (opts s)) u" and "stop (server s) = (Returned (Some err), p)"
    by (simp add: Service_Stop_with_def run_hooks_all_ok [OF that(1)] that(2))
  have c: "Service_Stop_with stop e s u ot =
        (Returned (Some err), s\<lparr>server := p\<rparr>,
         effects (take (Suc i) (AfterStop (opts s))) (effects (BeforeStop (opts s)) u), ot)"
    if "all_ok (BeforeStop (opts s)) u" and "stop (server s) = (Returned None, p)"
      and "first_failure (AfterStop (opts s)) (effects (BeforeStop (opts s)) u) i err"
    by (simp add: Service_Stop_with_def run_hooks_all_ok [OF that(1)] that(2)
        run_hooks_first_failure [OF that(3)])
  have d: "Service_Stop_with stop e s u ot =
        (Returned (tp_Shutdown e (tp_id tp) (Context (opts s))), s\<lparr>server := p\<rparr>,
         effects (AfterStop (opts s)) (effects (BeforeStop (opts s)) u),
         ot\<lparr>shut_down := shut_down ot @ [(tp_id tp, Context (opts s))]\<rparr>)"
    if "all_ok (BeforeStop (opts s)) u" and "stop (server s) = (Returned None, p)"
      and "all_ok (AfterStop (opts s)) (effects (BeforeStop (opts s)) u)"
      and "traceProvider s = Some tp"
    by (simp add: Service_Stop_with_def run_hooks_all_ok [OF that(1)] that(2)
        run_hooks_all_ok [OF that(3)] that(4))
  have f: "Service_Stop_with stop e s u ot =
        (Returned None, s\<lparr>server := p\<rparr>,
         effects (AfterStop (opts s)) (effects (BeforeStop (opts s)) u), ot)"
    if "all_ok (BeforeStop (opts s)) u" and "stop (server s) = (Returned None, p)"
      and "all_ok (AfterStop (opts s)) (effects (BeforeStop (opts s)) u)"
      and "traceProvider s = None"
    by (simp add: Service_Stop_with_def run_hooks_all_ok [OF that(1)] that(2)
        run_hooks_all_ok [OF that(3)] that(4))
  have g: "Service_Stop e s u ot = Service_Stop_with (HttpServer_Stop e) e s u ot"
    by (simp add: Service_Stop_def)
  have h: "HttpServer_Stop e (server s) =
          (Returned None, Some (hs\<lparr>exit_receivers := exit_receivers hs - 1\<rparr>))"
    if "server s = Some hs \<and> 0 < exit_receivers hs"
    using that by (simp add: HttpServer_Stop_running)
  from a b c d f g h show ?thesis by blast
qed

theorem Service_Stop_sequence_witness:
  "first_failure (BeforeStop (opts (svc_started [count_fail ''no''] [count_ok] None))) 0 0 ''no''
   \<and> fst (Service_Stop env_ok (svc_started [count_fail ''no''] [count_ok] None) 0 otel_zero)
       = Returned (Some ''no'')
   \<and> fst (snd (snd (Service_Stop env_ok (svc_started [count_fail ''no''] [count_ok] None)
                      0 otel_zero))) = 1
   \<and> all_ok (BeforeStop (opts (svc_started [count_ok] [count_ok] None))) 0
   \<and> stop_fails (server (svc_started [count_ok] [count_ok] None))
       = (Returned (Some ''drain failed''), Some running)
   \<and> fst (Service_Stop_with stop_fails env_ok (svc_started [count_ok] [count_ok] None)
            0 otel_zero) = Returned (Some ''drain failed'')
   \<and> fst (snd (snd (Service_Stop_with stop_fails env_ok
                      (svc_started [count_ok] [count_ok] None) 0 otel_zero))) = 1
   \<and> first_failure (AfterStop (opts (svc_started [count_ok] [count_fail ''late''] None)))
        1 0 ''late''
   \<and> fst (Service_Stop env_ok (svc_started [count_ok] [count_fail ''late''] None) 0 otel_zero)
       = Returned (Some ''late'')
   \<and> all_ok (AfterStop (opts (svc_started [count_ok] [count_ok] (Some tp_example)))) 1
   \<and> Service_Stop env_ok (svc_started [count_ok] [count_ok] (Some tp_example)) 0 otel_zero
       = (Returned None,
          (svc_started [count_ok] [count_ok] (Some tp_example))
            \<lparr>server := Some (running\<lparr>exit_receivers := 0\<rparr>)\<rparr>,
          2,
          otel_zero\<lparr>shut_down := [(0, Some Background)]\<rparr>)
   \<and> Service_Stop env_ok (svc_started [count_ok] [count_ok] None) 0 otel_zero
       = (Returned None,
          (svc_started [count_ok] [count_ok] None)
            \<lparr>server := Some (running\<lparr>exit_receivers := 0\<rparr>)\<rparr>,
          2, otel_zero)"
proof -
  let ?s1 = "svc_started [count_fail ''no''] [count_ok] None"
  let ?s2 = "svc_started [count_ok] [count_ok] None"
  let ?s3 = "svc_started [count_ok] [count_fail ''late''] None"
  let ?s4 = "svc_started [count_ok] [count_ok] (Some tp_example)"
  let ?stopped = "Some (running\<lparr>exit_receivers := 0\<rparr>)"
  have stop_ok: "HttpServer_Stop env_ok (Some running) = (Returned None, ?stopped)"
    by (simp add: HttpServer_Stop_running running_receivers)
  have f1: "first_failure (BeforeStop (opts ?s1)) 0 0 ''no''"
    by (simp add: first_failure_def svc_started_fields count_hooks)
  have k: "all_ok (BeforeStop (opts ?s2)) 0" "all_ok (BeforeStop (opts ?s3)) 0"
      "all_ok (BeforeStop (opts ?s4)) 0"
    by (simp_all add: svc_started_fields count_hooks)
  have e: "effects (BeforeStop (opts ?s2)) 0 = 1" "effects (BeforeStop (opts ?s3)) 0 = 1"
      "effects (BeforeStop (opts ?s4)) 0 = 1"
    by (simp_all add: svc_started_fields count_hooks)
  have sf: "stop_fails (server ?s2) = (Returned (Some ''drain failed''), Some running)"
    by (simp add: stop_fails_def svc_started_fields)
  have f3: "first_failure (AfterStop (opts ?s3)) 1 0 ''late''"
    by (simp add: first_failure_def svc_started_fields count_hooks)
  have k4: "all_ok (AfterStop (opts ?s4)) 1" "all_ok (AfterStop (opts ?s2)) 1"
    by (simp_all add: svc_started_fields count_hooks)
  from Service_Stop_sequence [where s = ?s1 and e = env_ok and u = 0 and i = 0
         and err = "''no''" and ot = otel_zero and stop = "HttpServer_Stop env_ok"] f1
  have r1: "fst (Service_Stop env_ok ?s1 0 otel_zero) = Returned (Some ''no'')"
      "fst (snd (snd (Service_Stop env_ok ?s1 0 otel_zero))) = 1"
    by (simp_all add: svc_started_fields count_hooks)
  from Service_Stop_sequence [where s = ?s2 and e = env_ok and u = 0
         and err = "''drain failed''" and ot = otel_zero and stop = stop_fails
         and p = "Some running"] k(1) sf
  have r2: "fst (Service_Stop_with stop_fails env_ok ?s2 0 otel_zero)
        = Returned (Some ''drain failed'')"
      "fst (snd (snd (Service_Stop_with stop_fails env_ok ?s2 0 otel_zero))) = 1"
    by (simp_all add: e)
  from Service_Stop_sequence [where s = ?s3 and e = env_ok and u = 0 and i = 0
         and err = "''late''" and ot = otel_zero and stop = "HttpServer_Stop env_ok"
         and p = ?stopped] k(2) f3 stop_ok
  have r3: "fst (Service_Stop env_ok ?s3 0 otel_zero) = Returned (Some ''late'')"
    by (simp add: e svc_started_fields count_hooks)
  from Service_Stop_sequence [where s = ?s4 and e = env_ok and u = 0
         and ot = otel_zero and stop = "HttpServer_Stop env_ok"
         and p = ?stopped and tp = tp_example] k(3) k4(1) stop_ok
  have r4: "Service_Stop env_ok ?s4 0 otel_zero
       = (Returned None, ?s4\<lparr>server := ?stopped\<rparr>, 2,
          otel_zero\<lparr>shut_down := [(0, Some Background)]\<rparr>)"
    by (simp add: e svc_started_fields count_hooks env_ok_def tp_example_def otel_zero_def)
  from Service_Stop_sequence [where s = ?s2 and e = env_ok and u = 0
         and ot = otel_zero and stop = "HttpServer_Stop env_ok" and p = ?stopped]
       k(1) k4(2) stop_ok
  have r5: "Service_Stop env_ok ?s2 0 otel_zero
       = (Returned None, ?s2\<lparr>server := ?stopped\<rparr>, 2, otel_zero)"
    by (simp add: e svc_started_fields count_hooks)
  from f1 r1 k(1) sf r2 f3 r3 k4(1) r4 r5 show ?thesis
    by (simp only: e simp_thms)
qed

section \<open>The repository's service test\<close>

text \<open>
  The run of \<open>TestService\<close>: the endpoint is registered, the service starts, the
  request is answered with status 200 and body "Hello World!", the service stops
  without an error, and the four hooks have each counted once.
\<close>

lemma TestService_registered:
  "fst (Endpoints svc_test [ep_hello] otel_zero) = None
   \<and> responses (svc_handler (fst (snd (Endpoints svc_test [ep_hello] otel_zero)))) get_root
       = [\<lparr>status = Some 200, body = ''Hello World!''\<rparr>]"
  by (simp add: svc_test_def Init_def NewService_def service_zero_def Let_def
      service_BeforeStart_def service_AfterStart_def service_BeforeStop_def
      service_AfterStop_def service_Tracing_def initTracer_def otel_zero_def
      NewChiHandler_def router_Method_def responses_def trace_apply ep_hello_def
      BeforeDecorator_def AfterDecorator_def decorateHandler_def and_then_def writes_def
      Write_def WriteHeader_def new_ResponseWriter_def)

lemma TestService_counts:
  "fst (Service_Start env_ok (fst (snd (Endpoints svc_test [ep_hello] otel_zero))) 0) = None
   \<and> fst (Service_Stop env_ok
            (fst (snd (Service_Start env_ok
                         (fst (snd (Endpoints svc_test [ep_hello] otel_zero))) 0)))
            (snd (snd (Service_Start env_ok
                         (fst (snd (Endpoints svc_test [ep_hello] otel_zero))) 0)))
            (snd (snd (Endpoints svc_test [ep_hello] otel_zero))))
       = Returned None
   \<and> fst (snd (snd (Service_Stop env_ok
            (fst (snd (Service_Start env_ok
                         (fst (snd (Endpoints svc_test [ep_hello] otel_zero))) 0)))
            (snd (snd (Service_Start env_ok
                         (fst (snd (Endpoints svc_test [ep_hello] otel_zero))) 0)))
            (snd (snd (Endpoints svc_test [ep_hello] otel_zero)))))) = 4"
  by (simp add: svc_test_def Init_def NewService_def service_zero_def Let_def
      service_BeforeStart_def service_AfterStart_def service_BeforeStop_def
      service_AfterStop_def service_Tracing_def initTracer_def otel_zero_def
      NewChiHandler_def router_Method_def Service_Start_def Service_Stop_def
      Service_Stop_with_def HttpServer_Start_def HttpServer_Stop_def drain_def
      NewHttpServer_def env_ok_def count_hooks)

end
